theory Spec2Isabelle
  imports Complex_Main
begin

section \<open>Head-coupled off-axis projection: the tracked state and its three operations\<close>

text \<open>
  The program keeps a handful of module-level variables and mutates them from three
  functions: \<open>onFaceResults\<close> (the detector's callback), \<open>animate\<close> (one render tick)
  and \<open>updateOffAxisProjection\<close> (the frustum solver called by every tick). Both
  variants of the page contained in the source define these three functions with the
  same arithmetic; they differ in the default of \<open>parallaxStrength\<close> (0.40 and 0.20)
  and in the scene they draw.

  Numbers: a JavaScript number is modelled as a \<^typ>\<open>real\<close>, so every statement below
  is about exact arithmetic; rounding of IEEE doubles is outside the model.

  Scope: the canvas drawing, the scene objects (hexagon, model), the renderer call,
  the frame-rate counter and \<open>requestAnimationFrame\<close> write none of the variables
  modelled here and are left out.
\<close>

subsection \<open>Data\<close>

text \<open>The bounding box of a detection, as the detector delivers it.\<close>

record boundingBox =
  xCenter :: real
  yCenter :: real
  width :: real
  height :: real

record detection =
  boundingBox :: boundingBox

record results =
  detections :: "detection list"

text \<open>\<open>boxGroup.userData = { halfWidth, halfHeight }\<close>.\<close>

record userData =
  halfWidth :: real
  halfHeight :: real

text \<open>
  The six arguments of \<open>projectionMatrix.makePerspective(left, right, bottom, top,
  near, far)\<close>. The matrix itself is built by the rendering library; the camera is
  modelled by the arguments it was last given.
\<close>

record frustum =
  left :: real
  right :: real
  bottom :: real
  top_edge :: real
  near :: real
  far :: real

type_synonym vector3 = "real \<times> real \<times> real"

record perspectiveCamera =
  projectionMatrix :: frustum
  position :: vector3
  rotation :: vector3

text \<open>
  The module-level variables. \<open>threeCamera\<close> and \<open>boxGroup\<close> are declared without a
  value and assigned during scene construction, hence the options.
\<close>

record state =
  targetX :: real
  targetY :: real
  currentX :: real
  currentY :: real
  smoothingAmount :: real
  parallaxStrength :: real
  screenResolutionX :: real
  screenResolutionY :: real
  threeCamera :: "perspectiveCamera option"
  boxGroup :: "userData option"

definition nearClip :: real where
  "nearClip = 0.1"

definition farClip :: real where
  "farClip = 1000"

text \<open>The values of the \<open>let\<close> declarations at the top of the first variant.\<close>

definition initialState :: state where
  "initialState =
     \<lparr> targetX = 0, targetY = 0, currentX = 0, currentY = 0,
       smoothingAmount = 0.15, parallaxStrength = 0.40,
       screenResolutionX = 1920, screenResolutionY = 1080,
       threeCamera = None, boxGroup = None \<rparr>"

subsection \<open>Operations\<close>

text \<open>
  \<open>createBox\<close>: of the box it builds, only \<open>userData\<close> is read again by the solver.
\<close>

definition createBox :: "state \<Rightarrow> state" where
  "createBox s =
     (let aspect = screenResolutionX s / screenResolutionY s;
          BASE_SIZE = 4;
          hw = BASE_SIZE * aspect / 2;
          hh = BASE_SIZE / 2
      in s\<lparr> boxGroup := Some \<lparr> halfWidth = hw, halfHeight = hh \<rparr> \<rparr>)"

text \<open>
  \<open>onFaceResults\<close>: with at least one detection the target is overwritten from the
  first one; with none nothing is assigned.
\<close>

definition onFaceResults :: "results \<Rightarrow> state \<Rightarrow> state" where
  "onFaceResults res s =
     (if length (detections res) > 0 then
        (let det = detections res ! 0;
             bbox = boundingBox det
         in s\<lparr> targetX := (xCenter bbox - 0.5) * 2,
                targetY := (yCenter bbox - 0.5) * 2 \<rparr>)
      else s)"

text \<open>
  \<open>updateOffAxisProjection\<close>: returns at once when the camera or the box is missing;
  otherwise it computes the eye position and the frustum edges on the near plane and
  writes them into the camera.
\<close>

definition updateOffAxisProjection :: "state \<Rightarrow> state" where
  "updateOffAxisProjection s =
     (case threeCamera s of
        None \<Rightarrow> s
      | Some cam \<Rightarrow>
         (case boxGroup s of
            None \<Rightarrow> s
          | Some ud \<Rightarrow>
             (let hw = halfWidth ud;
                  hh = halfHeight ud;
                  eyeDistance = 5;
                  eyeX = - currentX s * hw * parallaxStrength s;
                  eyeY = currentY s * hh * parallaxStrength s;
                  screenLeft = - hw;
                  screenRight = hw;
                  screenBottom = - hh;
                  screenTop = hh;
                  nearOverDist = nearClip / eyeDistance;
                  l = (screenLeft - eyeX) * nearOverDist;
                  r = (screenRight - eyeX) * nearOverDist;
                  b = (screenBottom - eyeY) * nearOverDist;
                  t = (screenTop - eyeY) * nearOverDist
              in s\<lparr> threeCamera := Some (cam\<lparr>
                       projectionMatrix :=
                         \<lparr> left = l, right = r, bottom = b, top_edge = t,
                           near = nearClip, far = farClip \<rparr>,
                       position := (eyeX, eyeY, eyeDistance),
                       rotation := (0, 0, 0) \<rparr>) \<rparr>)))"

text \<open>
  \<open>animate\<close>: one tick. The smoothed position moves towards the target, then the
  solver runs.
\<close>

definition animate :: "state \<Rightarrow> state" where
  "animate s =
     (let s1 = s\<lparr> currentX := currentX s + (targetX s - currentX s) * smoothingAmount s \<rparr>;
          s2 = s1\<lparr> currentY := currentY s1 + (targetY s1 - currentY s1) * smoothingAmount s1 \<rparr>
      in updateOffAxisProjection s2)"

text \<open>
  A camera as \<open>initThreeJS\<close> leaves it for the solver: placed at the origin. Its first
  projection is computed by the rendering library from a field of view and is
  overwritten by the first tick; the frustum given here only fills the field.
\<close>

definition originCamera :: perspectiveCamera where
  "originCamera =
     \<lparr> projectionMatrix =
         \<lparr> left = -1, right = 1, bottom = -1, top_edge = 1, near = nearClip, far = farClip \<rparr>,
       position = (0, 0, 0),
       rotation = (0, 0, 0) \<rparr>"

text \<open>
  The configuration of the end-to-end scenario: a screen of half-extents 2.0 by 1.125,
  strength 0.4, and the smoothed position given.
\<close>

definition scenario :: "real \<Rightarrow> real \<Rightarrow> state" where
  "scenario cx cy =
     \<lparr> targetX = 0, targetY = 0, currentX = cx, currentY = cy,
       smoothingAmount = 0.15, parallaxStrength = 0.4,
       screenResolutionX = 1920, screenResolutionY = 1080,
       threeCamera = Some originCamera,
       boxGroup = Some \<lparr> halfWidth = 2.0, halfHeight = 1.125 \<rparr> \<rparr>"

text \<open>
  The host calls back into the page one event at a time: a render tick or a detector
  result. A run is the events handled so far, in order.
\<close>

datatype event = Tick | FaceResults results

fun dispatch :: "event \<Rightarrow> state \<Rightarrow> state" where
  "dispatch Tick s = animate s"
| "dispatch (FaceResults res) s = onFaceResults res s"

definition run :: "event list \<Rightarrow> state \<Rightarrow> state" where
  "run es s = fold dispatch es s"

text \<open>An event that delivers no face: a tick, or a result with zero detections.\<close>

fun faceless :: "event \<Rightarrow> bool" where
  "faceless Tick = True"
| "faceless (FaceResults res) = (detections res = [])"

section \<open>What the solver writes\<close>

lemma solver_skips:
  "threeCamera s = None \<or> boxGroup s = None \<Longrightarrow> updateOffAxisProjection s = s"
  by (auto simp: updateOffAxisProjection_def split: option.splits)

lemma solver_camera:
  assumes "threeCamera s = Some cam" and "boxGroup s = Some ud"
  shows "threeCamera (updateOffAxisProjection s) =
           Some (cam\<lparr>
             projectionMatrix :=
               \<lparr> left = (- halfWidth ud + currentX s * halfWidth ud * parallaxStrength s) * (nearClip / 5),
                 right = (halfWidth ud + currentX s * halfWidth ud * parallaxStrength s) * (nearClip / 5),
                 bottom = (- halfHeight ud - currentY s * halfHeight ud * parallaxStrength s) * (nearClip / 5),
                 top_edge = (halfHeight ud - currentY s * halfHeight ud * parallaxStrength s) * (nearClip / 5),
                 near = nearClip, far = farClip \<rparr>,
             position := (- currentX s * halfWidth ud * parallaxStrength s,
                          currentY s * halfHeight ud * parallaxStrength s, 5),
             rotation := (0, 0, 0) \<rparr>)"
  using assms by (simp add: updateOffAxisProjection_def Let_def)

lemma solver_keeps_inputs:
  "targetX (updateOffAxisProjection s) = targetX s"
  "targetY (updateOffAxisProjection s) = targetY s"
  "currentX (updateOffAxisProjection s) = currentX s"
  "currentY (updateOffAxisProjection s) = currentY s"
  "smoothingAmount (updateOffAxisProjection s) = smoothingAmount s"
  "parallaxStrength (updateOffAxisProjection s) = parallaxStrength s"
  "boxGroup (updateOffAxisProjection s) = boxGroup s"
  by (simp_all add: updateOffAxisProjection_def Let_def split: option.splits)

text \<open>
  The box the page builds from its 1920 by 1080 resolution has positive half-extents.
\<close>

lemma createBox_extents:
  "boxGroup (createBox initialState) = Some \<lparr> halfWidth = 32 / 9, halfHeight = 2 \<rparr>"
  by (simp add: createBox_def initialState_def Let_def)

lemma scenario_fields:
  "threeCamera (scenario cx cy) = Some originCamera"
  "boxGroup (scenario cx cy) = Some \<lparr> halfWidth = 2.0, halfHeight = 1.125 \<rparr>"
  "currentX (scenario cx cy) = cx"
  "currentY (scenario cx cy) = cy"
  "parallaxStrength (scenario cx cy) = 0.4"
  "smoothingAmount (scenario cx cy) = 0.15"
  "targetX (scenario cx cy) = 0"
  "targetY (scenario cx cy) = 0"
  by (simp_all add: scenario_def)

section \<open>The frustum is never degenerate\<close>

text \<open>
  Claim C1. With a camera and a box whose half-extents are positive, the solver writes
  a frustum with \<open>left < right\<close> and \<open>bottom < top\<close>. This holds for every smoothed
  position and every strength, so in particular for positions in \<open>[-1,1]\<close> and
  positive strength; \<open>nearClip = 0.1\<close> and \<open>eyeDistance = 5\<close> are the constants of the
  code.
\<close>

theorem frustum_nondegenerate:
  assumes "threeCamera s = Some cam" and "boxGroup s = Some ud"
    and "0 < halfWidth ud" and "0 < halfHeight ud"
  shows "\<exists>cam'. threeCamera (updateOffAxisProjection s) = Some cam'
           \<and> left (projectionMatrix cam') < right (projectionMatrix cam')
           \<and> bottom (projectionMatrix cam') < top_edge (projectionMatrix cam')"
proof -
  have k: "0 < nearClip / 5" by (simp add: nearClip_def)
  have "(- halfWidth ud + currentX s * halfWidth ud * parallaxStrength s) * (nearClip / 5)
          < (halfWidth ud + currentX s * halfWidth ud * parallaxStrength s) * (nearClip / 5)"
    using assms(3) k by (simp add: mult_strict_right_mono)
  moreover
  have "(- halfHeight ud - currentY s * halfHeight ud * parallaxStrength s) * (nearClip / 5)
          < (halfHeight ud - currentY s * halfHeight ud * parallaxStrength s) * (nearClip / 5)"
    using assms(4) k by (simp add: mult_strict_right_mono)
  ultimately show ?thesis
    by (simp add: solver_camera [OF assms(1,2)])
qed

theorem frustum_nondegenerate_witness:
  "threeCamera (scenario 1 (-1)) = Some originCamera
   \<and> boxGroup (scenario 1 (-1)) = Some \<lparr> halfWidth = 2.0, halfHeight = 1.125 \<rparr>
   \<and> (\<exists>cam'. threeCamera (updateOffAxisProjection (scenario 1 (-1))) = Some cam'
           \<and> left (projectionMatrix cam') < right (projectionMatrix cam')
           \<and> bottom (projectionMatrix cam') < top_edge (projectionMatrix cam'))"
  using frustum_nondegenerate [of "scenario 1 (-1)" originCamera
      "\<lparr> halfWidth = 2.0, halfHeight = 1.125 \<rparr>"]
  by (simp add: scenario_fields)

section \<open>The frustum has a fixed size\<close>

text \<open>
  Claim C10. Whatever the smoothed position and the strength, the frustum written by
  the solver has width \<open>2 * halfWidth * nearClip / eyeDistance\<close> and height
  \<open>2 * halfHeight * nearClip / eyeDistance\<close> (with \<open>eyeDistance = 5\<close>): moving the eye
  translates the window and never resizes it.
\<close>

theorem frustum_size_fixed:
  assumes "threeCamera s = Some cam" and "boxGroup s = Some ud"
  shows "\<exists>cam'. threeCamera (updateOffAxisProjection s) = Some cam'
           \<and> right (projectionMatrix cam') - left (projectionMatrix cam')
               = 2 * halfWidth ud * nearClip / 5
           \<and> top_edge (projectionMatrix cam') - bottom (projectionMatrix cam')
               = 2 * halfHeight ud * nearClip / 5"
  by (simp add: solver_camera [OF assms] algebra_simps)

theorem frustum_size_fixed_witness:
  "threeCamera (scenario 0.5 0.25) = Some originCamera
   \<and> boxGroup (scenario 0.5 0.25) = Some \<lparr> halfWidth = 2.0, halfHeight = 1.125 \<rparr>
   \<and> (\<exists>cam'. threeCamera (updateOffAxisProjection (scenario 0.5 0.25)) = Some cam'
           \<and> right (projectionMatrix cam') - left (projectionMatrix cam') = 0.08
           \<and> top_edge (projectionMatrix cam') - bottom (projectionMatrix cam') = 0.045)"
  using frustum_size_fixed [of "scenario 0.5 0.25" originCamera
      "\<lparr> halfWidth = 2.0, halfHeight = 1.125 \<rparr>"]
  by (simp add: scenario_fields nearClip_def)

section \<open>Eye position and camera orientation\<close>

text \<open>
  Claim C7. The solver places the camera at \<open>(eyeX, eyeY, eyeDistance)\<close> with
  \<open>eyeX = - currentX * halfWidth * parallaxStrength\<close> (negated) and
  \<open>eyeY = currentY * halfHeight * parallaxStrength\<close> (not negated),
  \<open>eyeDistance = 5\<close>, and sets the rotation to \<open>(0, 0, 0)\<close>.
\<close>

theorem eye_position_and_rotation:
  assumes "threeCamera s = Some cam" and "boxGroup s = Some ud"
  shows "\<exists>cam'. threeCamera (updateOffAxisProjection s) = Some cam'
           \<and> position cam' = (- currentX s * halfWidth ud * parallaxStrength s,
                               currentY s * halfHeight ud * parallaxStrength s,
                               5)
           \<and> rotation cam' = (0, 0, 0)"
  by (simp add: solver_camera [OF assms])

theorem eye_position_and_rotation_witness:
  "threeCamera (scenario 0.5 0.5) = Some originCamera
   \<and> boxGroup (scenario 0.5 0.5) = Some \<lparr> halfWidth = 2.0, halfHeight = 1.125 \<rparr>
   \<and> (\<exists>cam'. threeCamera (updateOffAxisProjection (scenario 0.5 0.5)) = Some cam'
           \<and> position cam' = (- 0.4, 0.225, 5)
           \<and> rotation cam' = (0, 0, 0))"
  using eye_position_and_rotation [of "scenario 0.5 0.5" originCamera
      "\<lparr> halfWidth = 2.0, halfHeight = 1.125 \<rparr>"]
  by (simp add: scenario_fields)

section \<open>The centred eye\<close>

text \<open>
  Claim C3. With the smoothed position at \<open>(0, 0)\<close> the frustum is symmetric,
  \<open>left = - right\<close> and \<open>bottom = - top\<close>, and its edges are those of a symmetric
  perspective camera for the same extents and clip planes:
  \<open>right = halfWidth * nearClip / eyeDistance\<close>, \<open>top = halfHeight * nearClip /
  eyeDistance\<close>, with \<open>near = nearClip\<close> and \<open>far = farClip\<close>. The strength plays no
  role, and neither does the sign of the half-extents.
\<close>

theorem centred_frustum_symmetric:
  assumes "threeCamera s = Some cam" and "boxGroup s = Some ud"
    and "currentX s = 0" and "currentY s = 0"
  shows "\<exists>cam'. threeCamera (updateOffAxisProjection s) = Some cam'
           \<and> left (projectionMatrix cam') = - right (projectionMatrix cam')
           \<and> bottom (projectionMatrix cam') = - top_edge (projectionMatrix cam')
           \<and> left (projectionMatrix cam') = - halfWidth ud * nearClip / 5
           \<and> right (projectionMatrix cam') = halfWidth ud * nearClip / 5
           \<and> bottom (projectionMatrix cam') = - halfHeight ud * nearClip / 5
           \<and> top_edge (projectionMatrix cam') = halfHeight ud * nearClip / 5
           \<and> near (projectionMatrix cam') = nearClip
           \<and> far (projectionMatrix cam') = farClip"
  by (simp add: solver_camera [OF assms(1,2)] assms(3,4))

theorem centred_frustum_symmetric_witness:
  "threeCamera (scenario 0 0) = Some originCamera
   \<and> boxGroup (scenario 0 0) = Some \<lparr> halfWidth = 2.0, halfHeight = 1.125 \<rparr>
   \<and> currentX (scenario 0 0) = 0 \<and> currentY (scenario 0 0) = 0
   \<and> (\<exists>cam'. threeCamera (updateOffAxisProjection (scenario 0 0)) = Some cam'
           \<and> left (projectionMatrix cam') = - right (projectionMatrix cam')
           \<and> bottom (projectionMatrix cam') = - top_edge (projectionMatrix cam')
           \<and> right (projectionMatrix cam') = 2 * nearClip / 5
           \<and> top_edge (projectionMatrix cam') = 1.125 * nearClip / 5)"
  using centred_frustum_symmetric [of "scenario 0 0" originCamera
      "\<lparr> halfWidth = 2.0, halfHeight = 1.125 \<rparr>"]
  by (auto simp add: scenario_fields)

section \<open>The end-to-end scenario\<close>

text \<open>
  Claim C4. For \<open>halfWidth = 2.0\<close>, \<open>halfHeight = 1.125\<close>, \<open>parallaxStrength = 0.4\<close>
  (and the constants \<open>eyeDistance = 5\<close>, \<open>nearClip = 0.1\<close>, \<open>farClip = 1000\<close>): at the
  smoothed position \<open>(0, 0)\<close> the frustum is exactly \<open>left = -0.04\<close>, \<open>right = 0.04\<close>,
  \<open>bottom = -0.0225\<close>, \<open>top = 0.0225\<close>; at \<open>(1, 0)\<close> the eye is at \<open>eyeX = -0.8\<close> and
  \<open>left = -0.024\<close>, \<open>right = 0.056\<close>.
\<close>

theorem scenario_values:
  assumes "threeCamera s = Some cam"
    and "boxGroup s = Some \<lparr> halfWidth = 2.0, halfHeight = 1.125 \<rparr>"
    and "parallaxStrength s = 0.4"
  shows "(\<exists>c0. threeCamera (updateOffAxisProjection (s\<lparr> currentX := 0, currentY := 0 \<rparr>)) = Some c0
             \<and> projectionMatrix c0 =
                 \<lparr> left = - 0.04, right = 0.04, bottom = - 0.0225, top_edge = 0.0225,
                   near = 0.1, far = 1000 \<rparr>)
         \<and> (\<exists>c1. threeCamera (updateOffAxisProjection (s\<lparr> currentX := 1, currentY := 0 \<rparr>)) = Some c1
             \<and> fst (position c1) = - 0.8
             \<and> left (projectionMatrix c1) = - 0.024
             \<and> right (projectionMatrix c1) = 0.056)"
proof -
  let ?ud = "\<lparr> halfWidth = 2.0, halfHeight = 1.125 \<rparr>"
  have a: "threeCamera (s\<lparr> currentX := 0, currentY := 0 \<rparr>) = Some cam"
    and b: "boxGroup (s\<lparr> currentX := 0, currentY := 0 \<rparr>) = Some ?ud"
    using assms by simp_all
  have c: "threeCamera (s\<lparr> currentX := 1, currentY := 0 \<rparr>) = Some cam"
    and d: "boxGroup (s\<lparr> currentX := 1, currentY := 0 \<rparr>) = Some ?ud"
    using assms by simp_all
  show ?thesis
    by (simp add: solver_camera [OF a b] solver_camera [OF c d] assms(3)
        nearClip_def farClip_def)
qed

theorem scenario_values_witness:
  "threeCamera (scenario 0.3 0.3) = Some originCamera
   \<and> boxGroup (scenario 0.3 0.3) = Some \<lparr> halfWidth = 2.0, halfHeight = 1.125 \<rparr>
   \<and> parallaxStrength (scenario 0.3 0.3) = 0.4
   \<and> (\<exists>c0. threeCamera (updateOffAxisProjection (scenario 0.3 0.3 \<lparr> currentX := 0, currentY := 0 \<rparr>)) = Some c0
             \<and> projectionMatrix c0 =
                 \<lparr> left = - 0.04, right = 0.04, bottom = - 0.0225, top_edge = 0.0225,
                   near = 0.1, far = 1000 \<rparr>)
   \<and> (\<exists>c1. threeCamera (updateOffAxisProjection (scenario 0.3 0.3 \<lparr> currentX := 1, currentY := 0 \<rparr>)) = Some c1
             \<and> fst (position c1) = - 0.8
             \<and> left (projectionMatrix c1) = - 0.024
             \<and> right (projectionMatrix c1) = 0.056)"
  using scenario_values [of "scenario 0.3 0.3" originCamera]
  by (simp add: scenario_fields)

section \<open>The direction of the shift\<close>

text \<open>
  Claim C2, as stated: for fixed positive half-extents and strength and fixed
  \<open>currentY\<close>, \<open>right\<close> strictly decreases and \<open>|left|\<close> strictly increases as
  \<open>currentX\<close> grows from 0. The code negates \<open>currentX\<close> when it computes \<open>eyeX\<close>, so
  the opposite happens: in the end-to-end scenario, going from \<open>currentX = 0\<close> to
  \<open>currentX = 1\<close> takes \<open>right\<close> from 0.04 up to 0.056 and \<open>|left|\<close> from 0.04 down to
  0.024.
\<close>

theorem mirrored_sign_counterexample:
  "\<not> right (projectionMatrix (the (threeCamera (updateOffAxisProjection (scenario 1 0)))))
       < right (projectionMatrix (the (threeCamera (updateOffAxisProjection (scenario 0 0)))))
   \<and> \<not> \<bar>left (projectionMatrix (the (threeCamera (updateOffAxisProjection (scenario 0 0)))))\<bar>
       < \<bar>left (projectionMatrix (the (threeCamera (updateOffAxisProjection (scenario 1 0)))))\<bar>"
  by (simp add: solver_camera [OF scenario_fields(1,2)] scenario_fields nearClip_def)

text \<open>
  Claim C2, amended: for positive \<open>halfWidth\<close> and strength, with everything else
  fixed, \<open>right\<close> and \<open>left\<close> are both strictly increasing in \<open>currentX\<close>, and \<open>|left|\<close>
  is strictly decreasing as long as \<open>currentX * parallaxStrength \<le> 1\<close> (the eye has not
  passed the screen's left edge).
\<close>

theorem frustum_shifts_with_eye:
  assumes "threeCamera s = Some cam" and "boxGroup s = Some ud"
    and "0 < halfWidth ud" and "0 < parallaxStrength s" and "x1 < x2"
  shows "\<exists>c1 c2. threeCamera (updateOffAxisProjection (s\<lparr> currentX := x1 \<rparr>)) = Some c1
           \<and> threeCamera (updateOffAxisProjection (s\<lparr> currentX := x2 \<rparr>)) = Some c2
           \<and> right (projectionMatrix c1) < right (projectionMatrix c2)
           \<and> left (projectionMatrix c1) < left (projectionMatrix c2)
           \<and> (x2 * parallaxStrength s \<le> 1 \<longrightarrow>
                \<bar>left (projectionMatrix c2)\<bar> < \<bar>left (projectionMatrix c1)\<bar>)"
proof -
  let ?hw = "halfWidth ud" and ?p = "parallaxStrength s"
  have a1: "threeCamera (s\<lparr> currentX := x1 \<rparr>) = Some cam"
    and b1: "boxGroup (s\<lparr> currentX := x1 \<rparr>) = Some ud"
    and a2: "threeCamera (s\<lparr> currentX := x2 \<rparr>) = Some cam"
    and b2: "boxGroup (s\<lparr> currentX := x2 \<rparr>) = Some ud"
    using assms(1,2) by simp_all
  have k: "0 < nearClip / 5" by (simp add: nearClip_def)
  have hp: "0 < ?hw * ?p" using assms(3,4) by simp
  have sh: "x1 * ?hw * ?p < x2 * ?hw * ?p"
    using mult_strict_right_mono [OF assms(5) hp] by (simp add: mult.assoc)
  have r: "(?hw + x1 * ?hw * ?p) * (nearClip / 5) < (?hw + x2 * ?hw * ?p) * (nearClip / 5)"
    using sh k by (simp add: mult_strict_right_mono)
  have l: "(- ?hw + x1 * ?hw * ?p) * (nearClip / 5) < (- ?hw + x2 * ?hw * ?p) * (nearClip / 5)"
    using sh k by (simp add: mult_strict_right_mono)
  have m: "\<bar>(- ?hw + x2 * ?hw * ?p) * (nearClip / 5)\<bar> < \<bar>(- ?hw + x1 * ?hw * ?p) * (nearClip / 5)\<bar>"
    if le: "x2 * ?p \<le> 1"
  proof -
    have "?hw * (x2 * ?p) \<le> ?hw * 1"
      using le assms(3) by (intro mult_left_mono) simp_all
    then have "- ?hw + x2 * ?hw * ?p \<le> 0" by (simp add: algebra_simps)
    then have "(- ?hw + x2 * ?hw * ?p) * (nearClip / 5) \<le> 0"
      using k by (simp add: mult_le_0_iff)
    then show ?thesis using l by simp
  qed
  show ?thesis
    using r l m by (simp add: solver_camera [OF a1 b1] solver_camera [OF a2 b2])
qed

theorem frustum_shifts_with_eye_witness:
  "threeCamera (scenario 0 0) = Some originCamera
   \<and> boxGroup (scenario 0 0) = Some \<lparr> halfWidth = 2.0, halfHeight = 1.125 \<rparr>
   \<and> 0 < parallaxStrength (scenario 0 0) \<and> (0::real) < 1
   \<and> 1 * parallaxStrength (scenario 0 0) \<le> 1
   \<and> (\<exists>c1 c2. threeCamera (updateOffAxisProjection (scenario 0 0 \<lparr> currentX := 0 \<rparr>)) = Some c1
           \<and> threeCamera (updateOffAxisProjection (scenario 0 0 \<lparr> currentX := 1 \<rparr>)) = Some c2
           \<and> right (projectionMatrix c1) < right (projectionMatrix c2)
           \<and> left (projectionMatrix c1) < left (projectionMatrix c2)
           \<and> \<bar>left (projectionMatrix c2)\<bar> < \<bar>left (projectionMatrix c1)\<bar>)"
  using frustum_shifts_with_eye [of "scenario 0 0" originCamera
      "\<lparr> halfWidth = 2.0, halfHeight = 1.125 \<rparr>" 0 1]
  by (simp add: scenario_fields)

section \<open>Ticks\<close>

lemma animate_fields:
  "targetX (animate s) = targetX s"
  "targetY (animate s) = targetY s"
  "smoothingAmount (animate s) = smoothingAmount s"
  "parallaxStrength (animate s) = parallaxStrength s"
  "currentX (animate s) = currentX s + (targetX s - currentX s) * smoothingAmount s"
  "currentY (animate s) = currentY s + (targetY s - currentY s) * smoothingAmount s"
  by (simp_all add: animate_def Let_def solver_keeps_inputs)

lemma ticks_keep_inputs:
  "targetX ((animate ^^ n) s) = targetX s"
  "targetY ((animate ^^ n) s) = targetY s"
  "smoothingAmount ((animate ^^ n) s) = smoothingAmount s"
  by (induction n) (simp_all add: animate_fields)

lemma lag_step_bounded:
  fixes c t f :: real
  assumes "0 < f" "f \<le> 1" "- 1 \<le> t" "t \<le> 1" "- 1 \<le> c" "c \<le> 1"
  shows "- 1 \<le> c + (t - c) * f \<and> c + (t - c) * f \<le> 1"
proof -
  have e: "c + (t - c) * f = (1 - f) * c + f * t" by (simp add: algebra_simps)
  have "(1 - f) * c \<le> (1 - f) * 1" using assms by (intro mult_left_mono) simp_all
  moreover have "f * t \<le> f * 1" using assms by (intro mult_left_mono) simp_all
  moreover have "(1 - f) * (- 1) \<le> (1 - f) * c" using assms by (intro mult_left_mono) simp_all
  moreover have "f * (- 1) \<le> f * t" using assms by (intro mult_left_mono) simp_all
  ultimately show ?thesis unfolding e by (simp add: algebra_simps)
qed

lemma tick_error:
  "targetX s - currentX (animate s) = (1 - smoothingAmount s) * (targetX s - currentX s)"
  "targetY s - currentY (animate s) = (1 - smoothingAmount s) * (targetY s - currentY s)"
  by (simp_all add: animate_fields algebra_simps)

lemma ticks_error:
  "targetX s - currentX ((animate ^^ n) s) = (1 - smoothingAmount s) ^ n * (targetX s - currentX s)"
  "targetY s - currentY ((animate ^^ n) s) = (1 - smoothingAmount s) ^ n * (targetY s - currentY s)"
proof (induction n)
  case 0
  { case 1 show ?case by simp next
    case 2 show ?case by simp }
next
  case (Suc n)
  { case 1
    have "targetX s - currentX ((animate ^^ Suc n) s)
            = targetX ((animate ^^ n) s) - currentX (animate ((animate ^^ n) s))"
      by (simp add: ticks_keep_inputs)
    also have "\<dots> = (1 - smoothingAmount s) * (targetX s - currentX ((animate ^^ n) s))"
      using tick_error(1) [of "(animate ^^ n) s"] by (simp add: ticks_keep_inputs)
    finally show ?case by (simp add: Suc.IH(1))
  next
    case 2
    have "targetY s - currentY ((animate ^^ Suc n) s)
            = targetY ((animate ^^ n) s) - currentY (animate ((animate ^^ n) s))"
      by (simp add: ticks_keep_inputs)
    also have "\<dots> = (1 - smoothingAmount s) * (targetY s - currentY ((animate ^^ n) s))"
      using tick_error(2) [of "(animate ^^ n) s"] by (simp add: ticks_keep_inputs)
    finally show ?case by (simp add: Suc.IH(2)) }
qed

section \<open>The smoothed position stays in range\<close>

text \<open>
  Claim C5. With a smoothing factor in \<open>(0, 1]\<close>, a target whose coordinates are in
  \<open>[-1, 1]\<close> and a smoothed position that starts in \<open>[-1, 1]\<close>, the smoothed position
  is in \<open>[-1, 1]\<close> after any number of ticks.
\<close>

theorem smoothing_bounded:
  assumes "0 < smoothingAmount s" and "smoothingAmount s \<le> 1"
    and "- 1 \<le> targetX s" and "targetX s \<le> 1"
    and "- 1 \<le> targetY s" and "targetY s \<le> 1"
    and "- 1 \<le> currentX s" and "currentX s \<le> 1"
    and "- 1 \<le> currentY s" and "currentY s \<le> 1"
  shows "- 1 \<le> currentX ((animate ^^ n) s) \<and> currentX ((animate ^^ n) s) \<le> 1
       \<and> - 1 \<le> currentY ((animate ^^ n) s) \<and> currentY ((animate ^^ n) s) \<le> 1"
proof (induction n)
  case 0
  show ?case using assms by simp
next
  case (Suc n)
  let ?s = "(animate ^^ n) s"
  have x: "- 1 \<le> currentX ?s + (targetX ?s - currentX ?s) * smoothingAmount ?s
           \<and> currentX ?s + (targetX ?s - currentX ?s) * smoothingAmount ?s \<le> 1"
    using assms Suc by (intro lag_step_bounded) (simp_all add: ticks_keep_inputs)
  have y: "- 1 \<le> currentY ?s + (targetY ?s - currentY ?s) * smoothingAmount ?s
           \<and> currentY ?s + (targetY ?s - currentY ?s) * smoothingAmount ?s \<le> 1"
    using assms Suc by (intro lag_step_bounded) (simp_all add: ticks_keep_inputs)
  show ?case using x y by (simp add: animate_fields)
qed



theorem smoothing_bounded_witness:
  "0 < smoothingAmount (initialState\<lparr> targetX := 1, targetY := - 1 \<rparr>)
   \<and> smoothingAmount (initialState\<lparr> targetX := 1, targetY := - 1 \<rparr>) \<le> 1
   \<and> - 1 \<le> currentX ((animate ^^ 3) (initialState\<lparr> targetX := 1, targetY := - 1 \<rparr>))
   \<and> currentX ((animate ^^ 3) (initialState\<lparr> targetX := 1, targetY := - 1 \<rparr>)) \<le> 1
   \<and> - 1 \<le> currentY ((animate ^^ 3) (initialState\<lparr> targetX := 1, targetY := - 1 \<rparr>))
   \<and> currentY ((animate ^^ 3) (initialState\<lparr> targetX := 1, targetY := - 1 \<rparr>)) \<le> 1"
  using smoothing_bounded [of "initialState\<lparr> targetX := 1, targetY := - 1 \<rparr>" 3]
  by (simp add: initialState_def)

section \<open>The smoothed position converges\<close>

lemma lag_power_vanishes:
  fixes f d :: real
  assumes "0 < f" and "f \<le> 1"
  shows "(\<lambda>n. t - (1 - f) ^ n * d) \<longlonglongrightarrow> t"
proof -
  have p: "(\<lambda>n. (1 - f) ^ n) \<longlonglongrightarrow> 0"
    using assms by (intro LIMSEQ_realpow_zero) simp_all
  have "(\<lambda>n. t - (1 - f) ^ n * d) \<longlonglongrightarrow> t - 0 * d"
    by (rule tendsto_diff [OF tendsto_const tendsto_mult [OF p tendsto_const]])
  then show ?thesis by simp
qed

lemma ticks_value:
  "currentX ((animate ^^ n) s) = targetX s - (1 - smoothingAmount s) ^ n * (targetX s - currentX s)"
  "currentY ((animate ^^ n) s) = targetY s - (1 - smoothingAmount s) ^ n * (targetY s - currentY s)"
  using ticks_error(1) [of s n] ticks_error(2) [of s n] by simp_all

lemma lag_step_between:
  fixes c t f :: real
  assumes "0 < f" and "f \<le> 1"
  shows "(c \<le> c + (t - c) * f \<and> c + (t - c) * f \<le> t)
       \<or> (t \<le> c + (t - c) * f \<and> c + (t - c) * f \<le> c)"
proof (cases "c \<le> t")
  case True
  then have "0 \<le> (t - c) * f" using assms by simp
  moreover have "(t - c) * f \<le> (t - c) * 1"
    using True assms by (intro mult_left_mono) simp_all
  ultimately show ?thesis by simp
next
  case False
  then have "(t - c) * f \<le> 0" using assms by (simp add: mult_le_0_iff)
  moreover have "(c - t) * f \<le> (c - t) * 1"
    using False assms by (intro mult_left_mono) simp_all
  then have "(t - c) * 1 \<le> (t - c) * f" by (simp add: algebra_simps)
  ultimately show ?thesis by simp
qed

text \<open>
  Claim C6. With target 1, smoothed position 0 and factor 0.15, the smoothed position
  exceeds 0.95 after 20 ticks. In general, for a factor in \<open>(0, 1]\<close> and a target held
  fixed: the distance to the target is multiplied by \<open>1 - factor\<close> at every tick, each
  new position lies between the previous one and the target (monotone, no overshoot),
  and the positions converge to the target. Stated for both coordinates.
\<close>

theorem smoothing_converges:
  "(targetX s = 1 \<and> currentX s = 0 \<and> smoothingAmount s = 0.15
      \<longrightarrow> 0.95 < currentX ((animate ^^ 20) s))
   \<and> (0 < smoothingAmount s \<and> smoothingAmount s \<le> 1 \<longrightarrow>
        (\<forall>n. targetX s - currentX ((animate ^^ n) s)
               = (1 - smoothingAmount s) ^ n * (targetX s - currentX s))
      \<and> (\<forall>n. (currentX ((animate ^^ n) s) \<le> currentX ((animate ^^ Suc n) s)
                 \<and> currentX ((animate ^^ Suc n) s) \<le> targetX s)
              \<or> (targetX s \<le> currentX ((animate ^^ Suc n) s)
                 \<and> currentX ((animate ^^ Suc n) s) \<le> currentX ((animate ^^ n) s)))
      \<and> (\<lambda>n. currentX ((animate ^^ n) s)) \<longlonglongrightarrow> targetX s
      \<and> (\<forall>n. targetY s - currentY ((animate ^^ n) s)
               = (1 - smoothingAmount s) ^ n * (targetY s - currentY s))
      \<and> (\<forall>n. (currentY ((animate ^^ n) s) \<le> currentY ((animate ^^ Suc n) s)
                 \<and> currentY ((animate ^^ Suc n) s) \<le> targetY s)
              \<or> (targetY s \<le> currentY ((animate ^^ Suc n) s)
                 \<and> currentY ((animate ^^ Suc n) s) \<le> currentY ((animate ^^ n) s)))
      \<and> (\<lambda>n. currentY ((animate ^^ n) s)) \<longlonglongrightarrow> targetY s)"
proof (intro conjI impI allI)
  assume a: "targetX s = 1 \<and> currentX s = 0 \<and> smoothingAmount s = 0.15"
  from a have tx: "targetX s = 1" and cx: "currentX s = 0"
    and f: "1 - smoothingAmount s = 17 / 20" by simp_all
  have "currentX ((animate ^^ 20) s) = 1 - (17 / 20) ^ 20"
    unfolding ticks_value(1) tx cx f by simp
  moreover have "(0.95 :: real) < 1 - (17 / 20) ^ 20"
    by (simp add: power_divide)
  ultimately show "0.95 < currentX ((animate ^^ 20) s)" by simp
next
  fix n
  show "targetX s - currentX ((animate ^^ n) s)
          = (1 - smoothingAmount s) ^ n * (targetX s - currentX s)"
    by (rule ticks_error)
next
  fix n
  show "targetY s - currentY ((animate ^^ n) s)
          = (1 - smoothingAmount s) ^ n * (targetY s - currentY s)"
    by (rule ticks_error)
next
  fix n
  assume f: "0 < smoothingAmount s \<and> smoothingAmount s \<le> 1"
  show "(currentX ((animate ^^ n) s) \<le> currentX ((animate ^^ Suc n) s)
           \<and> currentX ((animate ^^ Suc n) s) \<le> targetX s)
        \<or> (targetX s \<le> currentX ((animate ^^ Suc n) s)
           \<and> currentX ((animate ^^ Suc n) s) \<le> currentX ((animate ^^ n) s))"
    using lag_step_between [of "smoothingAmount s" "currentX ((animate ^^ n) s)" "targetX s"] f
    by (simp add: animate_fields ticks_keep_inputs)
next
  fix n
  assume f: "0 < smoothingAmount s \<and> smoothingAmount s \<le> 1"
  show "(currentY ((animate ^^ n) s) \<le> currentY ((animate ^^ Suc n) s)
           \<and> currentY ((animate ^^ Suc n) s) \<le> targetY s)
        \<or> (targetY s \<le> currentY ((animate ^^ Suc n) s)
           \<and> currentY ((animate ^^ Suc n) s) \<le> currentY ((animate ^^ n) s))"
    using lag_step_between [of "smoothingAmount s" "currentY ((animate ^^ n) s)" "targetY s"] f
    by (simp add: animate_fields ticks_keep_inputs)
next
  assume f: "0 < smoothingAmount s \<and> smoothingAmount s \<le> 1"
  show "(\<lambda>n. currentX ((animate ^^ n) s)) \<longlonglongrightarrow> targetX s"
    using f by (simp add: ticks_value lag_power_vanishes)
next
  assume f: "0 < smoothingAmount s \<and> smoothingAmount s \<le> 1"
  show "(\<lambda>n. currentY ((animate ^^ n) s)) \<longlonglongrightarrow> targetY s"
    using f by (simp add: ticks_value lag_power_vanishes)
qed

theorem smoothing_converges_witness:
  "targetX (initialState\<lparr> targetX := 1 \<rparr>) = 1
   \<and> currentX (initialState\<lparr> targetX := 1 \<rparr>) = 0
   \<and> smoothingAmount (initialState\<lparr> targetX := 1 \<rparr>) = 0.15
   \<and> 0.95 < currentX ((animate ^^ 20) (initialState\<lparr> targetX := 1 \<rparr>))
   \<and> (\<lambda>n. currentX ((animate ^^ n) (initialState\<lparr> targetX := 1 \<rparr>))) \<longlonglongrightarrow> 1"
  using smoothing_converges [of "initialState\<lparr> targetX := 1 \<rparr>"]
  by (simp add: initialState_def)

section \<open>From a detection to the target\<close>

text \<open>
  Claim C8. When the detector delivers at least one detection, the target becomes
  \<open>((xCenter - 0.5) * 2, (yCenter - 0.5) * 2)\<close> for the centre of the first
  detection's bounding box; a centre coordinate in \<open>[0, 1]\<close> gives a target coordinate
  in \<open>[-1, 1]\<close>.
\<close>

theorem target_from_first_detection:
  assumes "detections res = d # ds"
  shows "targetX (onFaceResults res s) = (xCenter (boundingBox d) - 0.5) * 2
       \<and> targetY (onFaceResults res s) = (yCenter (boundingBox d) - 0.5) * 2
       \<and> (0 \<le> xCenter (boundingBox d) \<and> xCenter (boundingBox d) \<le> 1
            \<longrightarrow> - 1 \<le> targetX (onFaceResults res s) \<and> targetX (onFaceResults res s) \<le> 1)
       \<and> (0 \<le> yCenter (boundingBox d) \<and> yCenter (boundingBox d) \<le> 1
            \<longrightarrow> - 1 \<le> targetY (onFaceResults res s) \<and> targetY (onFaceResults res s) \<le> 1)"
  using assms by (simp add: onFaceResults_def Let_def)

theorem target_from_first_detection_witness:
  "targetX (onFaceResults
      \<lparr> detections =
          [\<lparr> boundingBox = \<lparr> xCenter = 0.75, yCenter = 0.25, width = 0.2, height = 0.3 \<rparr> \<rparr>,
           \<lparr> boundingBox = \<lparr> xCenter = 0.1, yCenter = 0.9, width = 0.2, height = 0.3 \<rparr> \<rparr>] \<rparr>
      initialState) = 0.5
   \<and> targetY (onFaceResults
      \<lparr> detections =
          [\<lparr> boundingBox = \<lparr> xCenter = 0.75, yCenter = 0.25, width = 0.2, height = 0.3 \<rparr> \<rparr>,
           \<lparr> boundingBox = \<lparr> xCenter = 0.1, yCenter = 0.9, width = 0.2, height = 0.3 \<rparr> \<rparr>] \<rparr>
      initialState) = - 0.5
   \<and> - 1 \<le> targetX (onFaceResults
      \<lparr> detections =
          [\<lparr> boundingBox = \<lparr> xCenter = 0.75, yCenter = 0.25, width = 0.2, height = 0.3 \<rparr> \<rparr>,
           \<lparr> boundingBox = \<lparr> xCenter = 0.1, yCenter = 0.9, width = 0.2, height = 0.3 \<rparr> \<rparr>] \<rparr>
      initialState)"
  using target_from_first_detection
    [of "\<lparr> detections =
          [\<lparr> boundingBox = \<lparr> xCenter = 0.75, yCenter = 0.25, width = 0.2, height = 0.3 \<rparr> \<rparr>,
           \<lparr> boundingBox = \<lparr> xCenter = 0.1, yCenter = 0.9, width = 0.2, height = 0.3 \<rparr> \<rparr>] \<rparr>"
        "\<lparr> boundingBox = \<lparr> xCenter = 0.75, yCenter = 0.25, width = 0.2, height = 0.3 \<rparr> \<rparr>"
        "[\<lparr> boundingBox = \<lparr> xCenter = 0.1, yCenter = 0.9, width = 0.2, height = 0.3 \<rparr> \<rparr>]"
        initialState]
  by simp

section \<open>Frames without a face\<close>

lemma faceless_keeps_target:
  "faceless e \<Longrightarrow> targetX (dispatch e s) = targetX s \<and> targetY (dispatch e s) = targetY s"
  by (cases e) (simp_all add: animate_fields onFaceResults_def)

lemma faceless_run_keeps_target:
  "\<forall>e\<in>set es. faceless e \<Longrightarrow>
     targetX (run es s) = targetX s \<and> targetY (run es s) = targetY s"
  unfolding run_def
proof (induction es arbitrary: s)
  case Nil
  show ?case by simp
next
  case (Cons e es)
  have "faceless e" and "\<forall>e\<in>set es. faceless e" using Cons.prems by simp_all
  then show ?case
    using Cons.IH [of "dispatch e s"] faceless_keeps_target [of e s] by simp
qed

text \<open>
  Claim C9. A detector result with zero detections leaves the state, and so the
  target, as it was. The target starts at \<open>(0, 0)\<close>, and any run of ticks and results
  without a face leaves the target where it was; so until a detection arrives the
  target is \<open>(0, 0)\<close>.
\<close>

theorem no_face_keeps_target:
  "(detections res = [] \<longrightarrow> onFaceResults res s = s)
   \<and> targetX initialState = 0 \<and> targetY initialState = 0
   \<and> ((\<forall>e\<in>set es. faceless e) \<longrightarrow>
         targetX (run es s) = targetX s \<and> targetY (run es s) = targetY s)"
  using faceless_run_keeps_target [of es s]
  by (simp add: onFaceResults_def initialState_def)

theorem no_face_keeps_target_witness:
  "detections \<lparr> detections = [] \<rparr> = []
   \<and> onFaceResults \<lparr> detections = [] \<rparr> initialState = initialState
   \<and> faceless Tick \<and> faceless (FaceResults \<lparr> detections = [] \<rparr>)
   \<and> targetX (run [Tick, FaceResults \<lparr> detections = [] \<rparr>, Tick] initialState) = 0
   \<and> targetY (run [Tick, FaceResults \<lparr> detections = [] \<rparr>, Tick] initialState) = 0"
  using no_face_keeps_target
    [of "\<lparr> detections = [] \<rparr>" initialState "[Tick, FaceResults \<lparr> detections = [] \<rparr>, Tick]"]
  by simp

end
